theory Spec2Isabelle
  imports Main "HOL-Library.Word"
begin

unbundle bit_operations_syntax

section \<open>Data model\<close>

text \<open>
  The Go types of the client: \<open>byte\<close> is an 8-bit word, \<open>uint16\<close> a 16-bit word,
  \<open>int\<close> and \<open>len\<close> are mathematical integers and naturals (no length in this development
  comes near the 64-bit bound), \<open>time.Duration\<close> is an integer count of nanoseconds.
  The receiver \<open>c\<close> and the \<open>*Pdu\<close> of \<open>Encode\<close> are pointers to existing values.
\<close>

type_synonym byte = "8 word"
type_synonym uint16 = "16 word"
type_synonym Duration = int

text \<open>The conversion \<open>uint16(n)\<close> of a non-negative \<open>int\<close>: it keeps the low 16 bits.\<close>

definition to_uint16 :: "nat \<Rightarrow> uint16" where
  "to_uint16 n = of_nat n"

text \<open>
  Every failure of the source is a value of \<open>error\<close>: the package-level error variables,
  the errors formatted by \<open>fmt.Errorf\<close> (one constructor per format string, carrying the
  formatted values), the errors handed back by the \<open>net\<close> and \<open>io\<close> packages, and the
  run-time panics of indexing and slicing, which are not returned but abort the call.
\<close>

datatype error =
    ErrorIllegalFunction
  | ErrorIllegalDataAddress
  | ErrorIllegalDataValue
  | ErrorSlaveDeviceFailure
  | ErrorAcknowledge
  | ErrorSlaveIsBusy
  | ErrorGatewayPathUnavailable
  | ErrorUnknown
  | ErrDecodeLength uint16 int
  | ErrTransactionId uint16 uint16
  | ErrProtocolId uint16 uint16
  | ErrUnitId byte byte
  | ErrLengthZero int
  | ErrLengthTooLarge int int
  | NetTimeout
  | NetFailure string
  | EOF
  | ErrUnexpectedEOF
  | PanicIndexOutOfRange
  | PanicSliceBounds
  | PanicNilDereference

fun is_panic :: "error \<Rightarrow> bool" where
  "is_panic PanicIndexOutOfRange = True"
| "is_panic PanicSliceBounds = True"
| "is_panic PanicNilDereference = True"
| "is_panic _ = False"

fun bind_res :: "error + 'a \<Rightarrow> ('a \<Rightarrow> error + 'b) \<Rightarrow> error + 'b" where
  "bind_res (Inl e) f = Inl e"
| "bind_res (Inr x) f = f x"

text \<open>The same for a function that returns only an \<open>error\<close> (\<open>None\<close> is nil).\<close>

fun try_res :: "error + 'a \<Rightarrow> ('a \<Rightarrow> error option) \<Rightarrow> error option" where
  "try_res (Inl e) f = Some e"
| "try_res (Inr x) f = f x"

record Pdu =
  FunctionCode :: byte
  Data :: "byte list"

subsection \<open>Constants\<close>

definition TcpProtocolIdentifier :: uint16 where
  "TcpProtocolIdentifier = 0"

definition HeaderSize :: nat where
  "HeaderSize = 7"

definition MaxLength :: nat where
  "MaxLength = 260"

definition TimeoutMillis :: int where
  "TimeoutMillis = 5000"

definition Millisecond :: Duration where
  "Millisecond = 1000000"

subsection \<open>Byte buffers\<close>

text \<open>
  A slice is a list of bytes. \<open>Uint16 b off\<close> is \<open>binary.BigEndian.Uint16(b[off:])\<close> and
  \<open>PutUint16 b off v\<close> is \<open>binary.BigEndian.PutUint16(b[off:], v)\<close>, which writes through
  to \<open>b\<close>: slicing panics when \<open>off\<close> is beyond the length, and both functions index
  element 1 of the sub-slice before anything else.
\<close>

definition Uint16 :: "byte list \<Rightarrow> nat \<Rightarrow> error + uint16" where
  "Uint16 b off =
     (if length b < off then Inl PanicSliceBounds
      else if length b - off < 2 then Inl PanicIndexOutOfRange
      else Inr (ucast (b ! (off + 1)) OR push_bit 8 (ucast (b ! off))))"

definition PutUint16 :: "byte list \<Rightarrow> nat \<Rightarrow> uint16 \<Rightarrow> error + byte list" where
  "PutUint16 b off v =
     (if length b < off then Inl PanicSliceBounds
      else if length b - off < 2 then Inl PanicIndexOutOfRange
      else Inr (b[off := ucast (drop_bit 8 v), off + 1 := ucast v]))"

text \<open>
  The number that the two bytes at \<open>off\<close> and \<open>off + 1\<close> spell in big-endian order; the
  statements below read header fields with it, independently of \<open>Uint16\<close>.
\<close>

definition be16 :: "byte list \<Rightarrow> nat \<Rightarrow> nat" where
  "be16 b off = unat (b ! off) * 256 + unat (b ! (off + 1))"

text \<open>\<open>index b i\<close> is the read \<open>b[i]\<close>, \<open>store b i v\<close> the assignment \<open>b[i] = v\<close>.\<close>

definition index :: "byte list \<Rightarrow> nat \<Rightarrow> error + byte" where
  "index b i = (if i < length b then Inr (b ! i) else Inl PanicIndexOutOfRange)"

definition store :: "byte list \<Rightarrow> nat \<Rightarrow> byte \<Rightarrow> error + byte list" where
  "store b i v = (if i < length b then Inr (b[i := v]) else Inl PanicIndexOutOfRange)"

text \<open>\<open>slice_from b off\<close> is \<open>b[off:]\<close> as a value of its own.\<close>

definition slice_from :: "byte list \<Rightarrow> nat \<Rightarrow> error + byte list" where
  "slice_from b off = (if length b < off then Inl PanicSliceBounds else Inr (drop off b))"

text \<open>
  \<open>copy_to dst off src\<close> is \<open>copy(dst[off:], src)\<close>: it copies as many bytes as both
  sides hold.
\<close>

definition copy_to :: "byte list \<Rightarrow> nat \<Rightarrow> byte list \<Rightarrow> error + byte list" where
  "copy_to dst off src =
     (if length dst < off then Inl PanicSliceBounds
      else let n = min (length dst - off) (length src)
           in Inr (take off dst @ take n src @ drop (off + n) dst))"

section \<open>The session and its connection\<close>

text \<open>
  \<open>net.Conn\<close> is an interface of the standard library; the model keeps a handle in the
  client (\<open>None\<close> is the nil interface) and the connection itself in a separate state
  \<open>net\<close>, passed along with the client. That state holds the bytes the peer has sent
  and that no read has taken yet, the bytes written, what each method of the handle
  answers, whether the read deadline and the write deadline of the connection have
  passed, and the \<open>trace\<close> of every call made, in order. A read or a write whose
  deadline has passed fails with a timeout at once and transfers nothing, whatever
  has arrived.
\<close>

datatype net_Conn = TCPConn string

datatype log_entry = LogSending "byte list" | LogReceived "byte list"

record ModbusTcpClient =
  IpAddress :: string
  Port :: int
  Timeout :: Duration
  SlaveId :: byte
  TransactionId :: uint16
  Logger :: "log_entry list option"
  Conn :: "net_Conn option"

datatype event =
    EvDial string string Duration
  | EvSetDeadline Duration
  | EvWrite "byte list"
  | EvReadFull nat
  | EvSetReadDeadlineNow
  | EvRead nat
  | EvClose

record net =
  dial_failure :: "string \<Rightarrow> error option"
  SetDeadline_failure :: "error option"
  SetReadDeadline_failure :: "error option"
  Write_failure :: "error option"
  Close_failure :: "error option"
  Read_failure :: error
  read_expired :: bool
  write_expired :: bool
  incoming :: "byte list"
  outgoing :: "byte list"
  trace :: "event list"

definition record_event :: "net \<Rightarrow> event \<Rightarrow> net" where
  "record_event w ev = w\<lparr>trace := trace w @ [ev]\<rparr>"

text \<open>
  \<open>dialer.Dial(network, address)\<close> of a dialer with the given timeout. A connection
  that has just been opened has no deadline.
\<close>

definition net_Dial :: "net \<Rightarrow> string \<Rightarrow> string \<Rightarrow> Duration \<Rightarrow> net \<times> (error + net_Conn)" where
  "net_Dial w network address timeout =
     (case dial_failure w address of
        Some err \<Rightarrow> (record_event w (EvDial network address timeout), Inl err)
      | None \<Rightarrow>
          (record_event (w\<lparr>read_expired := False, write_expired := False\<rparr>)
             (EvDial network address timeout),
           Inr (TCPConn address)))"

text \<open>
  \<open>conn.SetDeadline(time.Now().Add(d))\<close> sets the deadline of reads and of writes: it has
  passed as soon as it is set when \<open>d\<close> is not positive, and lies ahead otherwise.
\<close>

definition conn_SetDeadline :: "net \<Rightarrow> Duration \<Rightarrow> net \<times> error option" where
  "conn_SetDeadline w d =
     (case SetDeadline_failure w of
        Some err \<Rightarrow> (record_event w (EvSetDeadline d), Some err)
      | None \<Rightarrow>
          (record_event (w\<lparr>read_expired := (d \<le> 0), write_expired := (d \<le> 0)\<rparr>)
             (EvSetDeadline d),
           None))"

text \<open>
  \<open>conn.SetReadDeadline(time.Now())\<close>: once it is set, the read deadline has passed.
\<close>

definition conn_SetReadDeadline_now :: "net \<Rightarrow> net \<times> error option" where
  "conn_SetReadDeadline_now w =
     (case SetReadDeadline_failure w of
        Some err \<Rightarrow> (record_event w EvSetReadDeadlineNow, Some err)
      | None \<Rightarrow> (record_event (w\<lparr>read_expired := True\<rparr>) EvSetReadDeadlineNow, None))"

definition conn_Write :: "net \<Rightarrow> byte list \<Rightarrow> net \<times> (error + nat)" where
  "conn_Write w b =
     (if write_expired w then (record_event w (EvWrite b), Inl NetTimeout)
      else case Write_failure w of
        Some err \<Rightarrow> (record_event w (EvWrite b), Inl err)
      | None \<Rightarrow> (record_event (w\<lparr>outgoing := outgoing w @ b\<rparr>) (EvWrite b), Inr (length b)))"

text \<open>
  \<open>conn.Read(b)\<close> with a buffer of \<open>n\<close> bytes. A read into an empty buffer returns at
  once. A read whose deadline has passed returns a timeout and leaves the bytes that
  have arrived where they are. Otherwise the read takes what has arrived, at most \<open>n\<close>
  bytes, and fails when nothing has.
\<close>

definition conn_Read :: "net \<Rightarrow> nat \<Rightarrow> net \<times> (error + byte list)" where
  "conn_Read w n =
     (if n = 0 then (record_event w (EvRead n), Inr [])
      else if read_expired w then (record_event w (EvRead n), Inl NetTimeout)
      else if incoming w = [] then (record_event w (EvRead n), Inl (Read_failure w))
      else (record_event (w\<lparr>incoming := drop n (incoming w)\<rparr>) (EvRead n),
            Inr (take n (incoming w))))"

text \<open>
  \<open>io.ReadFull(conn, b)\<close> with a buffer of \<open>n\<close> bytes: exactly \<open>n\<close> bytes or an error.
  It reads nothing for an empty buffer; under a read deadline that has passed its first
  read times out; an end of file after some bytes is reported as \<open>ErrUnexpectedEOF\<close>.
\<close>

definition io_ReadFull :: "net \<Rightarrow> nat \<Rightarrow> net \<times> (error + byte list)" where
  "io_ReadFull w n =
     (if n = 0 then (record_event w (EvReadFull n), Inr [])
      else if read_expired w then (record_event w (EvReadFull n), Inl NetTimeout)
      else if n \<le> length (incoming w)
      then (record_event (w\<lparr>incoming := drop n (incoming w)\<rparr>) (EvReadFull n),
            Inr (take n (incoming w)))
      else (record_event (w\<lparr>incoming := []\<rparr>) (EvReadFull n),
            Inl (if incoming w \<noteq> [] \<and> Read_failure w = EOF then ErrUnexpectedEOF
                 else Read_failure w)))"

definition conn_Close :: "net \<Rightarrow> net \<times> error option" where
  "conn_Close w = (record_event w EvClose, Close_failure w)"

text \<open>\<open>c.Logger.Printf\<close> behind its nil check.\<close>

definition log_Printf :: "ModbusTcpClient \<Rightarrow> log_entry \<Rightarrow> ModbusTcpClient" where
  "log_Printf c entry =
     (case Logger c of None \<Rightarrow> c | Some lines \<Rightarrow> c\<lparr>Logger := Some (lines @ [entry])\<rparr>)"

section \<open>The client\<close>

definition NewModbusTcpClient :: "string \<Rightarrow> int \<Rightarrow> ModbusTcpClient" where
  "NewModbusTcpClient ipAddress port =
     \<lparr>IpAddress = ipAddress, Port = port, Timeout = 0, SlaveId = 0, TransactionId = 0,
      Logger = None, Conn = None\<rparr>"

definition Connect :: "ModbusTcpClient \<Rightarrow> net \<Rightarrow> ModbusTcpClient \<times> net \<times> error option" where
  "Connect c w =
     (let c = (if Timeout c \<le> 0 then c\<lparr>Timeout := TimeoutMillis * Millisecond\<rparr> else c)
      in case net_Dial w ''tcp'' (IpAddress c) (Timeout c) of
           (w, Inl err) \<Rightarrow> (c\<lparr>Conn := None\<rparr>, w, Some err)
         | (w, Inr conn) \<Rightarrow> (c\<lparr>Conn := Some conn\<rparr>, w, None))"

definition Disconnect :: "ModbusTcpClient \<Rightarrow> net \<Rightarrow> ModbusTcpClient \<times> net \<times> error option" where
  "Disconnect c w =
     (case Conn c of
        None \<Rightarrow> (c, w, None)
      | Some conn \<Rightarrow>
          (case conn_Close w of
             (w, Some err) \<Rightarrow> (c, w, Some err)
           | (w, None) \<Rightarrow> (c\<lparr>Conn := None\<rparr>, w, None)))"

definition Encode :: "ModbusTcpClient \<Rightarrow> Pdu \<Rightarrow> ModbusTcpClient \<times> (error + byte list)" where
  "Encode c pdu =
     (let adu = replicate (HeaderSize + 1 + length (Data pdu)) (0 :: byte);
          c = c\<lparr>TransactionId := TransactionId c + 1\<rparr>
      in (c,
          bind_res (PutUint16 adu 0 (TransactionId c)) (\<lambda>adu.
          bind_res (PutUint16 adu 2 TcpProtocolIdentifier) (\<lambda>adu.
          let length_field = to_uint16 (1 + 1 + length (Data pdu)) in
          bind_res (PutUint16 adu 4 length_field) (\<lambda>adu.
          bind_res (store adu 6 (SlaveId c)) (\<lambda>adu.
          bind_res (store adu HeaderSize (FunctionCode pdu)) (\<lambda>adu.
          copy_to adu (HeaderSize + 1) (Data pdu))))))))"

definition Decode :: "ModbusTcpClient \<Rightarrow> byte list \<Rightarrow> error + Pdu" where
  "Decode c adu =
     bind_res (Uint16 adu 4) (\<lambda>length_field.
     let pduLength = int (length adu) - int HeaderSize in
     if pduLength \<le> 0 \<or> pduLength \<noteq> uint (length_field - 1)
     then Inl (ErrDecodeLength (length_field - 1) pduLength)
     else bind_res (index adu HeaderSize) (\<lambda>functionCode.
          bind_res (slice_from adu (HeaderSize + 1)) (\<lambda>data.
          Inr \<lparr>FunctionCode = functionCode, Data = data\<rparr>)))"

definition Verify :: "ModbusTcpClient \<Rightarrow> byte list \<Rightarrow> byte list \<Rightarrow> error option" where
  "Verify c aduRequest aduResponse =
     try_res (Uint16 aduResponse 0) (\<lambda>responseVal.
     try_res (Uint16 aduRequest 0) (\<lambda>requestVal.
     if responseVal \<noteq> requestVal then Some (ErrTransactionId responseVal requestVal)
     else
     try_res (Uint16 aduResponse 2) (\<lambda>responseVal.
     try_res (Uint16 aduRequest 2) (\<lambda>requestVal.
     if responseVal \<noteq> requestVal then Some (ErrProtocolId responseVal requestVal)
     else
     try_res (index aduResponse 6) (\<lambda>responseUnit.
     try_res (index aduRequest 6) (\<lambda>requestUnit.
     if responseUnit \<noteq> requestUnit then Some (ErrUnitId responseUnit requestUnit)
     else None))))))"

text \<open>
  \<open>flush c w n\<close> is \<open>c.flush(b)\<close> for a buffer of \<open>n\<close> bytes. What the read returns is
  dropped, and so is its error: the function returns nil once the deadline is set. The
  read comes after \<open>SetReadDeadline(time.Now())\<close>, so its deadline has passed.
\<close>

definition flush :: "ModbusTcpClient \<Rightarrow> net \<Rightarrow> nat \<Rightarrow> ModbusTcpClient \<times> net \<times> error option" where
  "flush c w n =
     (case Conn c of
        None \<Rightarrow> (c, w, Some PanicNilDereference)
      | Some conn \<Rightarrow>
          (case conn_SetReadDeadline_now w of
             (w, Some err) \<Rightarrow> (c, w, Some err)
           | (w, None) \<Rightarrow> (case conn_Read w n of (w, r) \<Rightarrow> (c, w, None))))"

text \<open>
  The body of \<open>Send\<close> from the logging of the request on, run on a session that holds a
  connection. The array \<open>data\<close> of \<open>MaxLength\<close> bytes receives the header and then the
  body; \<open>response\<close> is its prefix. A nil handle panics at the first call on it; past that
  point the handle is there, so \<open>flush\<close> cannot panic and what it returns is dropped.
\<close>

definition Send_exchange ::
  "ModbusTcpClient \<Rightarrow> net \<Rightarrow> byte list \<Rightarrow> ModbusTcpClient \<times> net \<times> (error + byte list)" where
  "Send_exchange c w request =
     (let data = replicate MaxLength (0 :: byte);
          c = log_Printf c (LogSending request)
      in if Conn c = None then (c, w, Inl PanicNilDereference)
      else
      case conn_SetDeadline w (Timeout c) of
        (w, Some err) \<Rightarrow> (c, w, Inl err)
      | (w, None) \<Rightarrow>
      (case conn_Write w request of
        (w, Inl err) \<Rightarrow> (c, w, Inl err)
      | (w, Inr written) \<Rightarrow>
      (case io_ReadFull w HeaderSize of
        (w, Inl err) \<Rightarrow> (c, w, Inl err)
      | (w, Inr header) \<Rightarrow>
      (let data = header @ drop HeaderSize data in
       case Uint16 data 4 of
         Inl p \<Rightarrow> (c, w, Inl p)
       | Inr length_field \<Rightarrow>
       (let len = uint length_field in
        if len \<le> 0 then
          (case flush c w MaxLength of
             (c, w, r) \<Rightarrow> (c, w, Inl (ErrLengthZero len)))
        else if len > int MaxLength - (int HeaderSize - 1) then
          (case flush c w MaxLength of
             (c, w, r) \<Rightarrow>
               (c, w, Inl (ErrLengthTooLarge len (int MaxLength - int HeaderSize + 1))))
        else
          (let len = nat (len + (int HeaderSize - 1)) in
           case io_ReadFull w (len - HeaderSize) of
             (w, Inl err) \<Rightarrow> (c, w, Inl err)
           | (w, Inr body) \<Rightarrow>
               (let data = take HeaderSize data @ body @ drop len data;
                    response = take len data;
                    c = log_Printf c (LogReceived response)
                in (c, w, Inr response))))))))"

text \<open>
  \<open>Send\<close>: a session without a connection dials one and, by the deferred call, runs
  \<open>Disconnect\<close> when the exchange is over, whatever its outcome; the error of that
  \<open>Disconnect\<close> is dropped.
\<close>

definition Send ::
  "ModbusTcpClient \<Rightarrow> net \<Rightarrow> byte list \<Rightarrow> ModbusTcpClient \<times> net \<times> (error + byte list)" where
  "Send c w request =
     (case Conn c of
        None \<Rightarrow>
          (case Connect c w of
             (c, w, Some err) \<Rightarrow> (c, w, Inl err)
           | (c, w, None) \<Rightarrow>
               (case Send_exchange c w request of
                  (c, w, r) \<Rightarrow> (case Disconnect c w of (c, w, d) \<Rightarrow> (c, w, r))))
      | Some conn \<Rightarrow> Send_exchange c w request)"

subsection \<open>Exception codes\<close>

definition ExcIllegalFunction :: int where "ExcIllegalFunction = 1"
definition ExcIllegalDataAdr :: int where "ExcIllegalDataAdr = 2"
definition ExcIllegalDataVal :: int where "ExcIllegalDataVal = 3"
definition ExcSlaveDeviceFailure :: int where "ExcSlaveDeviceFailure = 4"
definition ExcAcknowledge :: int where "ExcAcknowledge = 5"
definition ExcSlaveIsBusy :: int where "ExcSlaveIsBusy = 6"
definition ExcGatePathUnavailable :: int where "ExcGatePathUnavailable = 10"

definition FailureCodeToError :: "int \<Rightarrow> error" where
  "FailureCodeToError errorCode =
     (if errorCode = ExcIllegalFunction then ErrorIllegalFunction
      else if errorCode = ExcIllegalDataAdr then ErrorIllegalDataAddress
      else if errorCode = ExcIllegalDataVal then ErrorIllegalDataValue
      else if errorCode = ExcSlaveDeviceFailure then ErrorSlaveDeviceFailure
      else if errorCode = ExcAcknowledge then ErrorAcknowledge
      else if errorCode = ExcSlaveIsBusy then ErrorSlaveIsBusy
      else if errorCode = ExcGatePathUnavailable then ErrorGatewayPathUnavailable
      else ErrorUnknown)"

section \<open>The checksum\<close>

text \<open>
  Modelled from the spec: the accumulator of the type \<open>CRC\<close> with its methods \<open>Reset\<close>
  and \<open>PushBytes\<close>, which \<open>TestCRC\<close> calls and no source file defines. The accumulator
  is a 16-bit state; \<open>Reset\<close> sets it to the seed \<open>0xFFFF\<close>; a pushed byte is XORed into
  the low 8 bits and followed by 8 rounds, each a right shift by one, XORed with
  \<open>0xA001\<close> when the low bit was set. The third method, \<open>Value\<close>, is left out: the spec
  has it return the state, \<open>TestCRC\<close> expects of it the two bytes of the state in the
  other order, and there is no code to tell which of the two it does.
\<close>

type_synonym CRC = uint16

definition Reset :: CRC where
  "Reset = 0xFFFF"

definition crc_round :: "CRC \<Rightarrow> CRC" where
  "crc_round s = (if bit s 0 then drop_bit 1 s XOR 0xA001 else drop_bit 1 s)"

definition PushByte :: "CRC \<Rightarrow> byte \<Rightarrow> CRC" where
  "PushByte s b = (crc_round ^^ 8) (s XOR ucast b)"

definition PushBytes :: "CRC \<Rightarrow> byte list \<Rightarrow> CRC" where
  "PushBytes s bs = foldl PushByte s bs"

section \<open>Vocabulary of the statements\<close>

text \<open>
  The wire layout of a frame: transaction id \<open>t\<close>, protocol id zero, length field \<open>l\<close>,
  unit id \<open>u\<close>, function code \<open>f\<close>, payload \<open>d\<close>.
\<close>

definition frame :: "uint16 \<Rightarrow> uint16 \<Rightarrow> byte \<Rightarrow> byte \<Rightarrow> byte list \<Rightarrow> byte list" where
  "frame t l u f d =
     [ucast (drop_bit 8 t), ucast t, 0, 0, ucast (drop_bit 8 l), ucast l, u, f] @ d"

text \<open>
  The timeout a \<open>Send\<close> works with: a session without a connection dials first, and
  \<open>Connect\<close> replaces a timeout that is not positive.
\<close>

definition Send_timeout :: "ModbusTcpClient \<Rightarrow> Duration" where
  "Send_timeout c =
     (if Conn c = None \<and> Timeout c \<le> 0 then TimeoutMillis * Millisecond else Timeout c)"

text \<open>
  A network on which every call succeeds, with no deadline set, and on which the peer
  has sent nothing yet, and one whose dialler, as \<open>net.Dial\<close> does, refuses an address that names no port.
\<close>

definition quiet_net :: net where
  "quiet_net =
     \<lparr>dial_failure = (\<lambda>address. None), SetDeadline_failure = None,
      SetReadDeadline_failure = None, Write_failure = None, Close_failure = None,
      Read_failure = NetTimeout, read_expired = False, write_expired = False,
      incoming = [], outgoing = [], trace = []\<rparr>"

definition dial_needs_port :: "string \<Rightarrow> error option" where
  "dial_needs_port address =
     (if CHR '':'' \<in> set address then None else Some (NetFailure ''missing port in address''))"

section \<open>Big-endian fields\<close>

lemma join16:
  "ucast (lo :: byte) OR push_bit 8 (ucast (hi :: byte)) =
     (of_nat (unat hi * 256 + unat lo) :: uint16)"
proof -
  have "(of_nat (unat hi * 256 + unat lo) :: uint16) = push_bit 8 (ucast hi) + ucast lo"
    by (simp add: push_bit_eq_mult)
  also have "\<dots> = push_bit 8 (ucast hi) OR ucast lo"
    by (rule disjunctive_add_eq_or) (auto simp: bit_eq_iff bit_simps dest: bit_imp_le_length)
  finally show ?thesis
    by (simp add: or.commute)
qed

lemma byte_lt: "unat (x :: byte) < 256"
  using unsigned_less [of x, where ?'a = nat] by simp

lemma be16_lt: "be16 b off < 65536"
  using byte_lt [of "b ! off"] byte_lt [of "b ! (off + 1)"] by (simp add: be16_def)

lemma Uint16_be16: "off + 2 \<le> length b \<Longrightarrow> Uint16 b off = Inr (of_nat (be16 b off))"
  by (simp add: Uint16_def be16_def join16)

lemma unat_of_be16: "unat (of_nat (be16 b off) :: uint16) = be16 b off"
  using be16_lt [of b off] by (simp add: unat_of_nat)

lemma of_be16_eq_iff:
  "((of_nat (be16 a i) :: uint16) = of_nat (be16 b j)) = (be16 a i = be16 b j)"
  using unat_of_be16 [of a i] unat_of_be16 [of b j] by metis

lemma split16:
  "unat (ucast (drop_bit 8 (v :: uint16)) :: byte) * 256 + unat (ucast v :: byte) = unat v"
proof -
  have "unat v < 65536"
    using unsigned_less [of v, where ?'a = nat] by simp
  then have "unat v div 256 < 256"
    by simp
  moreover have "unat (drop_bit 8 v) = unat v div 256"
    by (simp only: unat_drop_bit_eq) (simp add: drop_bit_eq_div)
  ultimately show ?thesis
    by (simp only: unsigned_ucast_eq take_bit_eq_mod) simp
qed

lemma unat_succ16: "unat (t + 1 :: uint16) = (unat t + 1) mod 65536"
  by (simp add: unat_word_ariths)

lemma unat_to_uint16: "unat (to_uint16 n) = n mod 65536"
  by (simp add: to_uint16_def unat_of_nat)

lemma frame_fields:
  "length (frame t l u f d) = 7 + 1 + length d"
  "be16 (frame t l u f d) 0 = unat t"
  "be16 (frame t l u f d) 2 = 0"
  "be16 (frame t l u f d) 4 = unat l"
  "frame t l u f d ! 6 = u"
  "frame t l u f d ! 7 = f"
  "drop 8 (frame t l u f d) = d"
  by (simp_all add: frame_def be16_def split16)

section \<open>The frame codec\<close>

lemma replicate8: "replicate (8 + n) x = x # x # x # x # x # x # x # x # replicate n x"
  by (simp add: eval_nat_numeral)

text \<open>
  No index of \<open>Encode\<close> is out of range: the buffer it allocates holds the header and the
  function code at least. What it returns is the frame of the incremented counter.
\<close>

lemma Encode_frame:
  "Encode c pdu =
     (c\<lparr>TransactionId := TransactionId c + 1\<rparr>,
      Inr (frame (TransactionId c + 1) (to_uint16 (2 + length (Data pdu))) (SlaveId c)
             (FunctionCode pdu) (Data pdu)))"
  by (simp add: Encode_def Let_def HeaderSize_def replicate8 PutUint16_def store_def copy_to_def
      TcpProtocolIdentifier_def frame_def)

lemma Decode_frame:
  assumes "unat l = 2 + length d"
  shows "Decode c (frame t l u f d) = Inr \<lparr>FunctionCode = f, Data = d\<rparr>"
proof -
  let ?adu = "frame t l u f d"
  have len: "length ?adu = 8 + length d"
    by (simp add: frame_fields)
  have "Uint16 ?adu 4 = Inr (of_nat (be16 ?adu 4))"
    by (rule Uint16_be16) (simp add: len)
  then have field: "Uint16 ?adu 4 = Inr l"
    by (simp add: frame_fields)
  have "l \<noteq> 0"
    using assms by auto
  then have "unat (l - 1) = unat l - 1"
    by (rule unat_minus_one)
  then have minus: "uint (l - 1) = 1 + int (length d)"
    using assms by (simp add: uint_nat)
  show ?thesis
    unfolding Decode_def field bind_res.simps Let_def len minus
    using frame_fields(6,7) [of t l u f d]
    by (simp add: HeaderSize_def index_def slice_from_def len)
qed

text \<open>
  C1. For every session, function code and payload of 0 to 252 bytes, \<open>Encode\<close> returns a
  frame without error, and \<open>Decode\<close> of that frame returns, without error, the same
  function code and the same payload.
\<close>

theorem Encode_Decode_roundtrip:
  assumes "length (Data pdu) \<le> 252"
  shows "\<exists>c' adu. Encode c pdu = (c', Inr adu) \<and> Decode c' adu = Inr pdu"
proof -
  have "unat (to_uint16 (2 + length (Data pdu))) = 2 + length (Data pdu)"
    using assms by (simp add: unat_to_uint16)
  then show ?thesis
    by (simp add: Encode_frame Decode_frame)
qed

theorem Encode_Decode_roundtrip_witness:
  "length (Data \<lparr>FunctionCode = 3, Data = [0, 107, 0, 3]\<rparr>) \<le> 252
   \<and> (\<exists>c' adu. Encode (NewModbusTcpClient ''192.168.0.10'' 502)
          \<lparr>FunctionCode = 3, Data = [0, 107, 0, 3]\<rparr> = (c', Inr adu)
        \<and> adu = [0, 1, 0, 0, 0, 6, 0, 3, 0, 107, 0, 3]
        \<and> Decode c' adu = Inr \<lparr>FunctionCode = 3, Data = [0, 107, 0, 3]\<rparr>)"
  using Encode_Decode_roundtrip [of "\<lparr>FunctionCode = 3, Data = [0, 107, 0, 3]\<rparr>"
      "NewModbusTcpClient ''192.168.0.10'' 502"]
  by (simp add: Encode_frame frame_def NewModbusTcpClient_def to_uint16_def)

text \<open>
  C2, as amended. For every session and every PDU, \<open>Encode\<close> returns without error a
  frame of \<open>7 + 1 + len(payload)\<close> bytes: the big-endian transaction id at offset 0 is the
  previous counter plus 1 modulo 65536, the protocol id at offset 2 is 0, the big-endian
  length field at offset 4 is \<open>2 + len(payload)\<close> modulo 65536, the unit id is at offset
  6, the function code at offset 7 and the payload from offset 8; the counter stored in
  the session afterwards is the transaction id written, and nothing else of the session
  changes.
\<close>

theorem Encode_layout:
  "\<exists>c' adu. Encode c pdu = (c', Inr adu)
     \<and> length adu = 7 + 1 + length (Data pdu)
     \<and> be16 adu 0 = (unat (TransactionId c) + 1) mod 65536
     \<and> be16 adu 2 = 0
     \<and> be16 adu 4 = (2 + length (Data pdu)) mod 65536
     \<and> adu ! 6 = SlaveId c
     \<and> adu ! 7 = FunctionCode pdu
     \<and> drop 8 adu = Data pdu
     \<and> unat (TransactionId c') = be16 adu 0
     \<and> c' = c\<lparr>TransactionId := TransactionId c'\<rparr>"
  by (simp add: Encode_frame frame_fields unat_succ16 unat_to_uint16)

text \<open>
  The claim as it was stated gives the length field the value \<open>2 + len(payload)\<close> for
  every PDU. A payload of 65534 bytes has the length field 0, not 65536: the conversion
  to \<open>uint16\<close> keeps 16 bits.
\<close>

theorem Encode_length_field_wraps:
  "be16 (projr (snd (Encode (NewModbusTcpClient ''192.168.0.10'' 502)
        \<lparr>FunctionCode = 16, Data = replicate 65534 0\<rparr>))) 4
     \<noteq> 2 + length (Data \<lparr>FunctionCode = 16, Data = replicate 65534 0\<rparr>)"
  by (simp add: Encode_frame frame_fields unat_to_uint16)

text \<open>
  What \<open>Decode\<close> does on every input. Below 6 bytes the read of the length field is out
  of range and the call panics; from 6 bytes on it compares the lengths, where
  \<open>length - 1\<close> is computed in 16 bits.
\<close>

lemma Decode_too_short_to_slice:
  "length adu < 4 \<Longrightarrow> Decode c adu = Inl PanicSliceBounds"
  by (simp add: Decode_def Uint16_def)

lemma Decode_too_short_to_index:
  assumes "4 \<le> length adu" and "length adu < 6"
  shows "Decode c adu = Inl PanicIndexOutOfRange"
proof -
  have "length adu - 4 < 2"
    using assms by arith
  then show ?thesis
    using assms by (simp add: Decode_def Uint16_def)
qed

lemma Decode_from_6_bytes:
  assumes "6 \<le> length adu"
  shows "Decode c adu =
     (if length adu < 8 \<or> int (length adu) - 7 \<noteq> uint ((of_nat (be16 adu 4) :: uint16) - 1)
      then Inl (ErrDecodeLength (of_nat (be16 adu 4) - 1) (int (length adu) - 7))
      else Inr \<lparr>FunctionCode = adu ! 7, Data = drop 8 adu\<rparr>)"
proof -
  have "Uint16 adu 4 = Inr (of_nat (be16 adu 4))"
    using assms by (simp add: Uint16_be16)
  then show ?thesis
    by (auto simp add: Decode_def Let_def HeaderSize_def index_def slice_from_def)
qed

text \<open>
  C3. The claim has \<open>Decode\<close> return a framing error, and not crash, on every sequence
  shorter than 8 bytes. The code reads the length field before it looks at the size of
  the input: on the empty sequence the slice \<open>adu[4:]\<close> panics, on a sequence of 5 bytes
  the read of the second byte of the field panics, and only from 6 bytes on does a short
  frame get the framing error.
\<close>

theorem Decode_crashes_on_short_frame:
  "Decode (NewModbusTcpClient ''192.168.0.10'' 502) [] = Inl PanicSliceBounds
   \<and> Decode (NewModbusTcpClient ''192.168.0.10'' 502) [0, 1, 0, 0, 0] = Inl PanicIndexOutOfRange
   \<and> Decode (NewModbusTcpClient ''192.168.0.10'' 502) [0, 1, 0, 0, 0, 6, 1]
       = Inl (ErrDecodeLength 5 0)"
  by (simp add: Decode_def Uint16_def Let_def HeaderSize_def)

section \<open>The transaction verifier\<close>

lemma Verify_fields:
  assumes "7 \<le> length req" and "7 \<le> length resp"
  shows "Verify c req resp =
     (if be16 resp 0 \<noteq> be16 req 0
      then Some (ErrTransactionId (of_nat (be16 resp 0)) (of_nat (be16 req 0)))
      else if be16 resp 2 \<noteq> be16 req 2
      then Some (ErrProtocolId (of_nat (be16 resp 2)) (of_nat (be16 req 2)))
      else if resp ! 6 \<noteq> req ! 6 then Some (ErrUnitId (resp ! 6) (req ! 6))
      else None)"
  using assms by (simp add: Verify_def Uint16_be16 index_def of_be16_eq_iff)

lemma be16_take: "off + 2 \<le> n \<Longrightarrow> be16 (take n b) off = be16 b off"
  by (simp add: be16_def)

lemma Verify_take7:
  assumes "7 \<le> length req" and "7 \<le> length resp"
  shows "Verify c req resp = Verify c' (take 7 req) (take 7 resp)"
  using assms by (simp add: Verify_fields be16_take)

text \<open>
  C5. For two frames of at least 7 bytes each, \<open>Verify\<close> returns nil exactly when the
  big-endian 16-bit values at offsets 0 and 2 and the byte at offset 6 agree; otherwise
  it returns one error, for the first field that disagrees, in the order transaction id,
  protocol id, unit id.
\<close>

theorem Verify_compares_header_fields:
  assumes "7 \<le> length req" and "7 \<le> length resp"
  shows "(Verify c req resp = None) =
           (be16 resp 0 = be16 req 0 \<and> be16 resp 2 = be16 req 2 \<and> resp ! 6 = req ! 6)
     \<and> Verify c req resp =
         (if be16 resp 0 \<noteq> be16 req 0
          then Some (ErrTransactionId (of_nat (be16 resp 0)) (of_nat (be16 req 0)))
          else if be16 resp 2 \<noteq> be16 req 2
          then Some (ErrProtocolId (of_nat (be16 resp 2)) (of_nat (be16 req 2)))
          else if resp ! 6 \<noteq> req ! 6 then Some (ErrUnitId (resp ! 6) (req ! 6))
          else None)"
  using assms by (simp add: Verify_fields)

theorem Verify_compares_header_fields_witness:
  "7 \<le> length [0, 1, 0, 0, 0, 6, 17, 3, 0, 107, 0, 3 :: byte]
   \<and> 7 \<le> length [0, 1, 0, 0, 0, 5, 17, 3, 2, 1, 44 :: byte]
   \<and> Verify (NewModbusTcpClient ''192.168.0.10'' 502)
        [0, 1, 0, 0, 0, 6, 17, 3, 0, 107, 0, 3] [0, 1, 0, 0, 0, 5, 17, 3, 2, 1, 44] = None
   \<and> 7 \<le> length [0, 2, 0, 0, 0, 5, 18, 3, 2, 1, 44 :: byte]
   \<and> Verify (NewModbusTcpClient ''192.168.0.10'' 502)
        [0, 1, 0, 0, 0, 6, 17, 3, 0, 107, 0, 3] [0, 2, 0, 0, 0, 5, 18, 3, 2, 1, 44]
       = Some (ErrTransactionId 2 1)"
  using Verify_compares_header_fields [of "[0, 1, 0, 0, 0, 6, 17, 3, 0, 107, 0, 3]"
      "[0, 1, 0, 0, 0, 5, 17, 3, 2, 1, 44]" "NewModbusTcpClient ''192.168.0.10'' 502"]
    Verify_compares_header_fields [of "[0, 1, 0, 0, 0, 6, 17, 3, 0, 107, 0, 3]"
      "[0, 2, 0, 0, 0, 5, 18, 3, 2, 1, 44]" "NewModbusTcpClient ''192.168.0.10'' 502"]
  by (simp add: be16_def)

text \<open>
  C10. For frames of at least 7 bytes, the outcome of \<open>Verify\<close> depends on the first 7
  bytes of each frame only: two runs whose requests agree on bytes 0 to 6 and whose
  responses agree on bytes 0 to 6 return the same result, whatever follows and whatever
  the lengths and the sessions are.
\<close>

theorem Verify_reads_header_only:
  assumes "7 \<le> length req" and "7 \<le> length resp"
    and "7 \<le> length req'" and "7 \<le> length resp'"
    and "take 7 req = take 7 req'" and "take 7 resp = take 7 resp'"
  shows "Verify c req resp = Verify c' req' resp'"
proof -
  have "Verify c req resp = Verify c (take 7 req) (take 7 resp)"
    using assms(1,2) by (rule Verify_take7)
  also have "\<dots> = Verify c' req' resp'"
    unfolding assms(5,6) using assms(3,4) by (rule Verify_take7 [symmetric])
  finally show ?thesis .
qed

theorem Verify_reads_header_only_witness:
  "7 \<le> length [0, 1, 0, 0, 0, 6, 17, 3, 0, 107, 0, 3 :: byte]
   \<and> 7 \<le> length [0, 1, 0, 0, 0, 5, 17, 3, 2, 1, 44 :: byte]
   \<and> 7 \<le> length [0, 1, 0, 0, 0, 6, 17 :: byte]
   \<and> 7 \<le> length [0, 1, 0, 0, 0, 5, 17, 131, 2 :: byte]
   \<and> take 7 [0, 1, 0, 0, 0, 6, 17, 3, 0, 107, 0, 3 :: byte] = take 7 [0, 1, 0, 0, 0, 6, 17]
   \<and> take 7 [0, 1, 0, 0, 0, 5, 17, 3, 2, 1, 44 :: byte] = take 7 [0, 1, 0, 0, 0, 5, 17, 131, 2]
   \<and> Verify (NewModbusTcpClient ''192.168.0.10'' 502)
        [0, 1, 0, 0, 0, 6, 17, 3, 0, 107, 0, 3] [0, 1, 0, 0, 0, 5, 17, 3, 2, 1, 44]
     = Verify (NewModbusTcpClient ''192.168.0.11'' 1502)
        [0, 1, 0, 0, 0, 6, 17] [0, 1, 0, 0, 0, 5, 17, 131, 2]"
  using Verify_reads_header_only [of "[0, 1, 0, 0, 0, 6, 17, 3, 0, 107, 0, 3]"
      "[0, 1, 0, 0, 0, 5, 17, 3, 2, 1, 44]" "[0, 1, 0, 0, 0, 6, 17]"
      "[0, 1, 0, 0, 0, 5, 17, 131, 2]" "NewModbusTcpClient ''192.168.0.10'' 502"
      "NewModbusTcpClient ''192.168.0.11'' 1502"]
  by simp

section \<open>The error mapper\<close>

text \<open>
  C9. \<open>FailureCodeToError\<close> maps the codes 1, 2, 3, 4, 5, 6 and 10 to the errors of
  illegal function, illegal data address, illegal data value, slave device failure,
  acknowledge, slave busy and gateway path unavailable, and every other integer to the
  one unknown error; it returns an error value on every input and never panics.
\<close>

theorem FailureCodeToError_table:
  "FailureCodeToError 1 = ErrorIllegalFunction
   \<and> FailureCodeToError 2 = ErrorIllegalDataAddress
   \<and> FailureCodeToError 3 = ErrorIllegalDataValue
   \<and> FailureCodeToError 4 = ErrorSlaveDeviceFailure
   \<and> FailureCodeToError 5 = ErrorAcknowledge
   \<and> FailureCodeToError 6 = ErrorSlaveIsBusy
   \<and> FailureCodeToError 10 = ErrorGatewayPathUnavailable
   \<and> (code \<notin> {1, 2, 3, 4, 5, 6, 10} \<longrightarrow> FailureCodeToError code = ErrorUnknown)
   \<and> \<not> is_panic (FailureCodeToError code)"
  by (simp add: FailureCodeToError_def ExcIllegalFunction_def ExcIllegalDataAdr_def
      ExcIllegalDataVal_def ExcSlaveDeviceFailure_def ExcAcknowledge_def ExcSlaveIsBusy_def
      ExcGatePathUnavailable_def)

theorem FailureCodeToError_table_witness:
  "(77 :: int) \<notin> {1, 2, 3, 4, 5, 6, 10}
   \<and> FailureCodeToError 77 = ErrorUnknown
   \<and> FailureCodeToError 2 = ErrorIllegalDataAddress
   \<and> FailureCodeToError (- 1) = ErrorUnknown"
  using FailureCodeToError_table [of 77] FailureCodeToError_table [of "- 1"]
  by simp

section \<open>The checksum engine\<close>

lemma PushBytes_Nil: "PushBytes s [] = s"
  by (simp add: PushBytes_def)

lemma PushBytes_Cons: "PushBytes s (b # bs) = PushBytes (PushByte s b) bs"
  by (simp add: PushBytes_def)

lemma rounds8: "(f ^^ 8) x = f (f (f (f (f (f (f (f x)))))))"
  by (simp add: eval_nat_numeral)

lemma crc_02: "PushByte Reset 0x02 = 0x813E"
  by (simp add: PushByte_def Reset_def rounds8 crc_round_def)

lemma crc_02_07: "PushByte 0x813E 0x07 = 0x1241"
  by (simp add: PushByte_def rounds8 crc_round_def)

lemma crc_07: "PushByte Reset 0x07 = 0x82FE"
  by (simp add: PushByte_def Reset_def rounds8 crc_round_def)

lemma crc_07_02: "PushByte 0x82FE 0x02 = 0x4182"
  by (simp add: PushByte_def rounds8 crc_round_def)

text \<open>
  The state that the reduction leaves on the bytes of \<open>TestCRC\<close>, from a fresh
  accumulator: \<open>0x1241\<close>, with the low byte \<open>0x41\<close> and the high byte \<open>0x12\<close>. Read low
  byte first, it is the \<open>0x4112\<close> that the test expects of \<open>Value\<close>; read as the 16-bit
  state, it is not. The two bytes pushed in the other order leave another state.
\<close>

lemma crc_state_of_02_07:
  "PushBytes Reset [0x02, 0x07] = 0x1241"
  "(ucast (PushBytes Reset [0x02, 0x07]) :: byte) = 0x41"
  "(ucast (drop_bit 8 (PushBytes Reset [0x02, 0x07])) :: byte) = 0x12"
  "PushBytes Reset [0x07, 0x02] = 0x4182"
  by (simp_all add: PushBytes_Cons PushBytes_Nil crc_02 crc_02_07 crc_07 crc_07_02)

section \<open>The transport session\<close>

subsection \<open>Connect\<close>

lemma Connect_result:
  "Connect c w =
     (let t = (if Timeout c \<le> 0 then 5000000000 else Timeout c);
          tr = trace w @ [EvDial ''tcp'' (IpAddress c) t]
      in case dial_failure w (IpAddress c) of
           Some err \<Rightarrow> (c\<lparr>Timeout := t, Conn := None\<rparr>, w\<lparr>trace := tr\<rparr>, Some err)
         | None \<Rightarrow>
             (c\<lparr>Timeout := t, Conn := Some (TCPConn (IpAddress c))\<rparr>,
              w\<lparr>read_expired := False, write_expired := False, trace := tr\<rparr>, None))"
  by (simp add: Connect_def Let_def net_Dial_def record_event_def TimeoutMillis_def
      Millisecond_def split: option.splits)

text \<open>The port of the session has no part in \<open>Connect\<close>.\<close>

lemma Connect_ignores_Port:
  "Connect (c\<lparr>Port := p\<rparr>) w =
     (case Connect c w of (c', w', r) \<Rightarrow> (c'\<lparr>Port := p\<rparr>, w', r))"
  by (simp add: Connect_result Let_def split: option.splits)

text \<open>
  C7. The claim has \<open>Connect\<close> open a connection to the address formed from the host and
  the port of the session. The code sets the default timeout of 5000 ms as claimed, but
  dials the field \<open>IpAddress\<close> alone: for the session made by
  \<open>NewModbusTcpClient "192.168.0.10" 502\<close> the address dialled is \<open>192.168.0.10\<close>, not
  \<open>192.168.0.10:502\<close>, so that a dialler that wants a port refuses it, and the session is
  left without a handle.
\<close>

theorem Connect_dials_IpAddress_without_Port:
  "fst (Connect (NewModbusTcpClient ''192.168.0.10'' 502)
          (quiet_net\<lparr>dial_failure := dial_needs_port\<rparr>))
     = (NewModbusTcpClient ''192.168.0.10'' 502)\<lparr>Timeout := 5000000000\<rparr>
   \<and> trace (fst (snd (Connect (NewModbusTcpClient ''192.168.0.10'' 502)
          (quiet_net\<lparr>dial_failure := dial_needs_port\<rparr>))))
     = [EvDial ''tcp'' ''192.168.0.10'' 5000000000]
   \<and> snd (snd (Connect (NewModbusTcpClient ''192.168.0.10'' 502)
          (quiet_net\<lparr>dial_failure := dial_needs_port\<rparr>)))
     = Some (NetFailure ''missing port in address'')"
  by (simp add: Connect_result Let_def NewModbusTcpClient_def quiet_net_def dial_needs_port_def)

subsection \<open>Disconnect\<close>

lemma Disconnect_without_connection:
  "Conn c = None \<Longrightarrow> Disconnect c w = (c, w, None)"
  by (simp add: Disconnect_def)

lemma Disconnect_close_succeeds:
  "Conn c = Some conn \<Longrightarrow> Close_failure w = None \<Longrightarrow>
     Disconnect c w = (c\<lparr>Conn := None\<rparr>, w\<lparr>trace := trace w @ [EvClose]\<rparr>, None)"
  by (simp add: Disconnect_def conn_Close_def record_event_def)

lemma Disconnect_close_fails:
  "Conn c = Some conn \<Longrightarrow> Close_failure w = Some err \<Longrightarrow>
     Disconnect c w = (c, w\<lparr>trace := trace w @ [EvClose]\<rparr>, Some err)"
  by (simp add: Disconnect_def conn_Close_def record_event_def)


text \<open>
  C6. The claim has the session end without a handle in every case, the failing close
  included. The code returns the error of \<open>Close\<close> before it clears the handle: a session
  whose close fails keeps the handle, and the caller gets the error.
\<close>

theorem Disconnect_keeps_handle_when_close_fails:
  "Disconnect
      ((NewModbusTcpClient ''192.168.0.10:502'' 502)\<lparr>Conn := Some (TCPConn ''192.168.0.10:502'')\<rparr>)
      (quiet_net\<lparr>Close_failure := Some (NetFailure ''close failed'')\<rparr>)
   = ((NewModbusTcpClient ''192.168.0.10:502'' 502)\<lparr>Conn := Some (TCPConn ''192.168.0.10:502'')\<rparr>,
      quiet_net\<lparr>Close_failure := Some (NetFailure ''close failed''), trace := [EvClose]\<rparr>,
      Some (NetFailure ''close failed''))"
  by (simp add: Disconnect_def conn_Close_def record_event_def quiet_net_def)

subsection \<open>Send\<close>

text \<open>
  \<open>flush\<close> on a session with a handle: the read deadline is set to the present moment
  and, when that succeeds, one read is made. That read finds its deadline passed: it
  times out and takes none of the bytes in flight.
\<close>

lemma flush_result:
  "Conn c \<noteq> None \<Longrightarrow>
   flush c w n =
     (c,
      (if SetReadDeadline_failure w = None
       then w\<lparr>read_expired := True, trace := trace w @ [EvSetReadDeadlineNow, EvRead n]\<rparr>
       else w\<lparr>trace := trace w @ [EvSetReadDeadlineNow]\<rparr>),
      SetReadDeadline_failure w)"
  by (auto simp add: flush_def conn_SetReadDeadline_now_def conn_Read_def record_event_def
      split: option.splits)

lemma flush_takes_no_byte: "incoming (fst (snd (flush c w n))) = incoming w"
proof (cases "Conn c")
  case None
  then show ?thesis
    by (simp add: flush_def)
next
  case (Some conn)
  then have "Conn c \<noteq> None"
    by simp
  then show ?thesis
    by (simp add: flush_result)
qed



lemma Send_with_connection:
  "Conn c \<noteq> None \<Longrightarrow> Send c w request = Send_exchange c w request"
  by (auto simp add: Send_def split: option.splits)



lemma Send_timeout_positive: "Conn c = None \<Longrightarrow> 0 < Send_timeout c"
  by (simp add: Send_timeout_def TimeoutMillis_def Millisecond_def)

text \<open>
  With a timeout that is not positive on a session that holds a connection, the deadline
  has passed when it is set, and the write of the request times out: no header is read.
\<close>

lemma Send_exchange_nonpositive_timeout:
  assumes "Conn c \<noteq> None" and "Timeout c \<le> 0" and "SetDeadline_failure w = None"
  shows "snd (snd (Send c w request)) = Inl NetTimeout"
proof -
  have "Conn (log_Printf c (LogSending request)) \<noteq> None"
    and "Timeout (log_Printf c (LogSending request)) = Timeout c"
    using assms(1) by (simp_all add: log_Printf_def split: option.splits)
  then show ?thesis
    using assms
    by (simp add: Send_with_connection Send_exchange_def Let_def conn_SetDeadline_def
        conn_Write_def record_event_def)
qed




end
